theory Spec2Isabelle
  imports Main "HOL-Library.Word"
begin

section \<open>Data model\<close>

text \<open>
  The repository holds three versions of one class template \<open>BSTree<T>\<close>: the simple
  realisation (version 1), the error-handling one (version 2) and the allocator-based one
  (version 3), together with the pool allocator \<open>BSTree_Allocator\<close> over
  \<open>Memory_Pool\<close>.

  \<open>size_t\<close> is taken as an unsigned 64-bit integer (LP64): \<open>++\<close> and \<open>--\<close> wrap.
\<close>

type_synonym size_t = "64 word"

text \<open>
  A \<open>Node *\<close> is either \<open>nullptr\<close> or points to a node with the fields
  \<open>data_\<close>, \<open>left_\<close>, \<open>right_\<close>, \<open>count_\<close>. A node exclusively owns its
  children, so a pointer is modelled by the subtree it points to. Member names are
  written without the trailing underscore of the source (\<open>data\<close> for \<open>data_\<close>).
\<close>

datatype 'a node_ptr =
    nullptr
  | Node (data: 'a) (left: "'a node_ptr") (right: "'a node_ptr") (count: size_t)

text \<open>The constructor \<open>Node(T value)\<close>: no children, \<open>count_(0)\<close>.\<close>

definition new_Node :: "'a \<Rightarrow> 'a node_ptr" where
  "new_Node val = Node val nullptr nullptr 0"

record 'a BSTree =
  root :: "'a node_ptr"
  duplicate_elements_count :: size_t
  total_elements_count :: size_t

text \<open>
  The exceptions the sources throw. \<open>Invalid_argument\<close> is \<open>std::invalid_argument\<close>,
  \<open>Not_found\<close> the \<open>std::runtime_error\<close> of \<open>Remove\<close> on an absent value,
  \<open>Excessive_recursion\<close> the \<open>std::runtime_error\<close> of the depth guard,
  \<open>Out_of_range\<close> is \<open>std::out_of_range\<close>, \<open>Bad_alloc\<close> is \<open>std::bad_alloc\<close>,
  \<open>Pool_failure\<close> the \<open>std::runtime_error\<close> of \<open>Memory_Pool::Allocate_Block\<close>.
  Two outcomes are not exceptions: \<open>Null_dereference\<close> records that the code reads
  through a null pointer without any check (undefined behaviour, nothing is thrown), and
  \<open>Terminate\<close> that an exception leaves a \<open>noexcept\<close> function
  (\<open>std::terminate\<close>).
\<close>

datatype error =
    Invalid_argument
  | Not_found
  | Excessive_recursion
  | Out_of_range
  | Bad_alloc
  | Pool_failure
  | Null_dereference
  | Terminate

text \<open>
  The sentinel is \<open>T()\<close>, the value-initialised element. It is the \<open>default\<close> of the
  element type; for \<open>int\<close> it is \<open>0\<close>.
\<close>

instantiation int :: default
begin
definition default_int :: int where "default_int = 0"
instance ..
end

section \<open>Version 1: the simple realisation\<close>

text \<open>\<open>BSTree<T>::BSTree()\<close>.\<close>

definition BSTree_new :: "'a BSTree" where
  "BSTree_new = \<lparr>root = nullptr, duplicate_elements_count = 0, total_elements_count = 0\<rparr>"

text \<open>\<open>Node* Insert(Node *node, T value)\<close>.\<close>

fun Insert_node :: "'a::linorder node_ptr \<Rightarrow> 'a \<Rightarrow> 'a node_ptr" where
  "Insert_node nullptr val = new_Node val"
| "Insert_node (Node d l r c) val =
     (if val < d then Node d (Insert_node l val) r c
      else if val > d then Node d l (Insert_node r val) c
      else Node d l r (c + 1))"

text \<open>\<open>bool Search(Node *node, T value) const\<close>.\<close>

fun Search_node :: "'a::linorder node_ptr \<Rightarrow> 'a \<Rightarrow> bool" where
  "Search_node nullptr val = False"
| "Search_node (Node d l r c) val =
     (if d = val then True
      else if val < d then Search_node l val
      else Search_node r val)"

text \<open>
  \<open>Node* Remove(Node *node, T value)\<close>. The member \<open>total_elements_count_\<close> is
  decremented inside the recursion, so it is threaded through as the second component.
  On a match whose \<open>count_\<close> is not above 1 the function computes \<open>temp\<close>
  (\<open>nullptr\<close>, overwritten by \<open>right_\<close> when \<open>left_\<close> is null, else by \<open>left_\<close>
  when \<open>right_\<close> is null), deletes the node and returns \<open>temp\<close>. The statements after
  that \<open>return\<close> (\<open>Find_min\<close> and the copy of the successor) are never reached.
\<close>

fun Remove_node :: "'a::linorder node_ptr \<Rightarrow> 'a \<Rightarrow> size_t \<Rightarrow> 'a node_ptr \<times> size_t" where
  "Remove_node nullptr val tot = (nullptr, tot)"
| "Remove_node (Node d l r c) val tot =
     (if val < d then
        (case Remove_node l val tot of (l', tot') \<Rightarrow> (Node d l' r c, tot'))
      else if val > d then
        (case Remove_node r val tot of (r', tot') \<Rightarrow> (Node d l r' c, tot'))
      else if c > 1 then (Node d l r (c - 1), tot - 1)
      else
        (let temp = (if l = nullptr then r else if r = nullptr then l else nullptr)
         in (temp, tot - 1)))"

text \<open>The public \<open>Insert\<close>, \<open>Search\<close> and \<open>Remove\<close> of version 1.\<close>

definition Insert :: "'a::linorder BSTree \<Rightarrow> 'a \<Rightarrow> 'a BSTree" where
  "Insert t val = t\<lparr>root := Insert_node (root t) val\<rparr>"

definition Search :: "'a::linorder BSTree \<Rightarrow> 'a \<Rightarrow> bool" where
  "Search t val = Search_node (root t) val"

definition Remove :: "'a::linorder BSTree \<Rightarrow> 'a \<Rightarrow> 'a BSTree" where
  "Remove t val =
     (case Remove_node (root t) val (total_elements_count t) of
        (n, tot) \<Rightarrow> t\<lparr>root := n, total_elements_count := tot\<rparr>)"

text \<open>
  \<open>Node* Copy(Node *node)\<close> and the copy and move constructors. The copy constructor
  copies the nodes of the other tree (\<open>Copy(other.root_)\<close> in version 3; versions 1 and
  2 write \<open>Copy(other)\<close>) and takes both counters from \<open>other\<close>; the move
  constructor takes all three members from \<open>temp\<close> and nulls \<open>temp.root_\<close> (it
  returns the new tree and the moved-from one).
\<close>

fun Copy :: "'a node_ptr \<Rightarrow> 'a node_ptr" where
  "Copy nullptr = nullptr"
| "Copy (Node d l r c) =
     (let new_node = new_Node d;
          new_node = Node (data new_node) (Copy l) (right new_node) (count new_node);
          new_node = Node (data new_node) (left new_node) (Copy r) (count new_node);
          new_node = Node (data new_node) (left new_node) (right new_node) c
      in new_node)"

definition BSTree_copy :: "'a BSTree \<Rightarrow> 'a BSTree" where
  "BSTree_copy other =
     \<lparr>root = Copy (root other),
      duplicate_elements_count = duplicate_elements_count other,
      total_elements_count = total_elements_count other\<rparr>"

definition BSTree_move :: "'a BSTree \<Rightarrow> 'a BSTree \<times> 'a BSTree" where
  "BSTree_move temp =
     (\<lparr>root = root temp,
       duplicate_elements_count = duplicate_elements_count temp,
       total_elements_count = total_elements_count temp\<rparr>,
      temp\<lparr>root := nullptr\<rparr>)"

text \<open>
  The in-order sequence of the nodes of a tree (what \<open>Inorder\<close> prints): left subtree,
  node, right subtree; one entry per node, whatever its \<open>count_\<close>.
\<close>

fun Inorder :: "'a node_ptr \<Rightarrow> 'a list" where
  "Inorder nullptr = []"
| "Inorder (Node d l r c) = Inorder l @ d # Inorder r"

section \<open>Version 2: error handling\<close>

text \<open>
  Version 2 keeps \<open>Search\<close>, the recursive \<open>Remove\<close>, \<open>Copy\<close> and the constructors
  of version 1 word for word; it changes the public \<open>Insert\<close> and \<open>Remove\<close> and gives
  the recursive \<open>Insert\<close> a third parameter. A public operation returns the exception it
  throws, if any, and the tree as the call leaves it.

  \<open>new Node(value)\<close> is taken to succeed: storage exhaustion of the host is outside the
  model (the \<open>catch\<close> of \<open>std::bad_alloc\<close> only logs and rethrows).
\<close>

definition MAX_DEPTH :: size_t where
  "MAX_DEPTH = 1000"

text \<open>
  \<open>Node* Insert(Node *node, T value, size_t depth)\<close>, declared with the default
  argument \<open>depth = 0\<close>. Both recursive calls are written \<open>Insert(node->left_, value)\<close>
  and \<open>Insert(node->right_, value)\<close>: they pass no depth, so the callee gets 0.
\<close>

fun Insert_node2 :: "'a::linorder node_ptr \<Rightarrow> 'a \<Rightarrow> size_t \<Rightarrow> error + 'a node_ptr" where
  "Insert_node2 nullptr val depth =
     (if depth > MAX_DEPTH then Inl Excessive_recursion
      else Inr (new_Node val))"
| "Insert_node2 (Node d l r c) val depth =
     (if depth > MAX_DEPTH then Inl Excessive_recursion
      else if val < d then
        (case Insert_node2 l val 0 of
           Inl e \<Rightarrow> Inl e
         | Inr l' \<Rightarrow> Inr (Node d l' r c))
      else if val > d then
        (case Insert_node2 r val 0 of
           Inl e \<Rightarrow> Inl e
         | Inr r' \<Rightarrow> Inr (Node d l r' c))
      else Inr (Node d l r (c + 1)))"

text \<open>\<open>void Insert(T value)\<close> of version 2: the sentinel check, then the recursion.\<close>

definition Insert2 :: "'a::{linorder,default} BSTree \<Rightarrow> 'a \<Rightarrow> error option \<times> 'a BSTree" where
  "Insert2 t val =
     (if val = default then (Some Invalid_argument, t)
      else
        (case Insert_node2 (root t) val 0 of
           Inl e \<Rightarrow> (Some e, t)
         | Inr n \<Rightarrow> (None, t\<lparr>root := n\<rparr>)))"

text \<open>\<open>void Remove(T value)\<close> of version 2: the presence check, then the recursion.\<close>

definition Remove2 :: "'a::linorder BSTree \<Rightarrow> 'a \<Rightarrow> error option \<times> 'a BSTree" where
  "Remove2 t val =
     (if \<not> Search t val then (Some Not_found, t)
      else (None, Remove t val))"

text \<open>
  The number of recursive calls the recursive \<open>Insert\<close> makes below its first call
  for a given tree and value: the depth its descent reaches.
\<close>

fun descent :: "'a::linorder node_ptr \<Rightarrow> 'a \<Rightarrow> nat" where
  "descent nullptr val = 0"
| "descent (Node d l r c) val =
     (if val < d then Suc (descent l val)
      else if val > d then Suc (descent r val)
      else 0)"

text \<open>The right-leaning chain of the \<open>n\<close> values \<open>a, a + 1, ...\<close>, each with
  \<open>count_\<close> 0.\<close>

fun chain :: "int \<Rightarrow> nat \<Rightarrow> int node_ptr" where
  "chain a 0 = nullptr"
| "chain a (Suc n) = Node a nullptr (chain (a + 1) n) 0"

section \<open>The traversal iterator\<close>

text \<open>
  \<open>Tree_Iterator\<close> holds \<open>Node_Stack\<close> (a \<open>std::stack\<close> of node pointers; the head
  of the list is the top) and \<open>current_\<close>.
\<close>

record 'a Tree_Iterator =
  Node_Stack :: "'a node_ptr list"
  current :: "'a node_ptr"

text \<open>\<open>Push_left\<close>: push the node and walk to its left child until the pointer is null.\<close>

fun Push_left :: "'a node_ptr \<Rightarrow> 'a node_ptr list \<Rightarrow> 'a node_ptr list" where
  "Push_left nullptr st = st"
| "Push_left (Node d l r c) st = Push_left l (Node d l r c # st)"

text \<open>
  The constructor \<open>Tree_Iterator(Node *node)\<close>: start from the default iterator
  (\<open>current_ = nullptr\<close>, empty stack), push the left spine, and take the top as current
  if the stack is not empty.
\<close>

definition Tree_Iterator_new :: "'a node_ptr \<Rightarrow> 'a Tree_Iterator" where
  "Tree_Iterator_new node =
     (let st = Push_left node [] in
      case st of
        [] \<Rightarrow> \<lparr>Node_Stack = [], current = nullptr\<rparr>
      | n # rest \<Rightarrow> \<lparr>Node_Stack = rest, current = n\<rparr>)"

definition BSTree_begin :: "'a BSTree \<Rightarrow> 'a Tree_Iterator" where
  "BSTree_begin t = Tree_Iterator_new (root t)"

definition BSTree_end :: "'a BSTree \<Rightarrow> 'a Tree_Iterator" where
  "BSTree_end t = Tree_Iterator_new nullptr"

text \<open>
  \<open>operator*\<close> is \<open>return current_->data_;\<close> with no test of \<open>current_\<close>: on a null
  current pointer the read is undefined behaviour and no exception is thrown.
\<close>

definition deref :: "'a Tree_Iterator \<Rightarrow> error + 'a" where
  "deref it =
     (case current it of
        nullptr \<Rightarrow> Inl Null_dereference
      | Node d l r c \<Rightarrow> Inr d)"

text \<open>The prefix \<open>operator++\<close>.\<close>

definition increment :: "'a Tree_Iterator \<Rightarrow> error + 'a Tree_Iterator" where
  "increment it =
     (case current it of
        nullptr \<Rightarrow> Inl Out_of_range
      | Node d l r c \<Rightarrow>
          (let st = (if r \<noteq> nullptr then Push_left r (Node_Stack it) else Node_Stack it) in
           case st of
             [] \<Rightarrow> Inr \<lparr>Node_Stack = [], current = nullptr\<rparr>
           | n # rest \<Rightarrow> Inr \<lparr>Node_Stack = rest, current = n\<rparr>))"

text \<open>
  \<open>operator==\<close> compares the \<open>current_\<close> pointers of two iterators. A pointer is
  modelled by the subtree it points to, which decides whether a pointer is null but not
  whether two non-null pointers are the same node. So the comparison is modelled for a
  right-hand side whose \<open>current_\<close> is null, which is what \<open>it == end()\<close> is:
  \<open>end()\<close> is \<open>Tree_Iterator(nullptr)\<close>, and its \<open>current_\<close> stays null. An
  iterator in that state is exhausted.
\<close>

definition exhausted :: "'a Tree_Iterator \<Rightarrow> bool" where
  "exhausted it = (current it = nullptr)"

text \<open>
  Iterating from an iterator until exhaustion, as a client loop
  \<open>for (; it != end(); ++it) out.push_back(*it);\<close> does. The loop ends because every
  advance lowers the number of nodes still to be visited: a node on the stack or in
  \<open>current_\<close> stands for itself and its right subtree.
\<close>

fun pending :: "'a node_ptr \<Rightarrow> nat" where
  "pending nullptr = 0"
| "pending (Node d l r c) = Suc (size r)"

definition remaining :: "'a Tree_Iterator \<Rightarrow> nat" where
  "remaining it = pending (current it) + sum_list (map pending (Node_Stack it))"

lemma sum_pending_Push_left:
  "sum_list (map pending (Push_left n st)) = size n + sum_list (map pending st)"
  by (induction n arbitrary: st) auto

lemma increment_remaining:
  assumes "increment it = Inr it'"
  shows "remaining it' < remaining it"
proof (cases "current it")
  case nullptr
  with assms show ?thesis by (simp add: increment_def)
next
  case (Node d l r c)
  define st where "st = (if r \<noteq> nullptr then Push_left r (Node_Stack it) else Node_Stack it)"
  have le: "sum_list (map pending st) \<le> size r + sum_list (map pending (Node_Stack it))"
    by (simp add: st_def sum_pending_Push_left)
  have "remaining it' = sum_list (map pending st)"
    using assms Node by (cases st) (auto simp: increment_def remaining_def st_def Let_def)
  moreover have "remaining it = Suc (size r + sum_list (map pending (Node_Stack it)))"
    using Node by (simp add: remaining_def)
  ultimately show ?thesis using le by simp
qed

function collect :: "'a Tree_Iterator \<Rightarrow> 'a list" where
  "collect it =
     (if exhausted it then []
      else
        (case deref it of
           Inl e \<Rightarrow> []
         | Inr d \<Rightarrow>
             (case increment it of
                Inl e \<Rightarrow> []
              | Inr it' \<Rightarrow> d # collect it')))"
  by pat_completeness auto

termination collect
  by (relation "measure remaining") (simp_all add: increment_remaining)

declare collect.simps [simp del]

text \<open>
  What a stack of pending nodes still has to yield: each node, then the in-order sequence
  of its right subtree.
\<close>

fun visit :: "'a node_ptr list \<Rightarrow> 'a list" where
  "visit [] = []"
| "visit (nullptr # st) = visit st"
| "visit (Node d l r c # st) = d # Inorder r @ visit st"

section \<open>Operation sequences\<close>

text \<open>A client's calls on one tree, run in order; \<open>Search\<close> is \<open>const\<close>.\<close>

datatype 'a operation = Op_Insert 'a | Op_Search 'a | Op_Remove 'a

fun apply_op :: "'a::linorder BSTree \<Rightarrow> 'a operation \<Rightarrow> 'a BSTree" where
  "apply_op t (Op_Insert v) = Insert t v"
| "apply_op t (Op_Search v) = (let found = Search t v in t)"
| "apply_op t (Op_Remove v) = Remove t v"

text \<open>The same for version 2, where a call that throws leaves the tree to the next call.\<close>

fun apply_op2 :: "'a::{linorder,default} BSTree \<Rightarrow> 'a operation \<Rightarrow> 'a BSTree" where
  "apply_op2 t (Op_Insert v) = snd (Insert2 t v)"
| "apply_op2 t (Op_Search v) = (let found = Search t v in t)"
| "apply_op2 t (Op_Remove v) = snd (Remove2 t v)"

section \<open>The memory pool and the pooled allocator\<close>

text \<open>
  A \<open>Block *\<close> is null or points to slot \<open>i\<close> of the \<open>k\<close>-th array held in
  \<open>blocks_\<close>; \<open>reinterpret_cast\<close> makes a \<open>T *\<close> of it and back, so both pointer types
  are the same here. The \<open>next\<close> members of the blocks are a store from slots to
  pointers; the \<open>data\<close> members are raw storage and carry no value in the pool.
  \<open>blocks_\<close> is represented by the number of arrays it holds.
\<close>

type_synonym slot = "nat \<times> nat"

type_synonym block_ptr = "slot option"

record Memory_Pool =
  free_list :: block_ptr
  next_of :: "slot \<Rightarrow> block_ptr"
  blocks :: nat
  block_size :: nat
  block_count :: nat

text \<open>
  The constructor \<open>Memory_Pool(size_t block_count = 64)\<close>; \<open>sizeof_T\<close> stands for
  \<open>sizeof(T)\<close>, and \<open>store\<close> for the contents of the memory not yet owned.
\<close>

definition Memory_Pool_new :: "nat \<Rightarrow> (slot \<Rightarrow> block_ptr) \<Rightarrow> nat \<Rightarrow> error + Memory_Pool" where
  "Memory_Pool_new sizeof_T store n =
     (if n = 0 then Inl Invalid_argument
      else Inr \<lparr>free_list = None, next_of = store, blocks = 0,
                block_size = sizeof_T, block_count = n\<rparr>)"

text \<open>
  What the host does when the pool asks for storage in \<open>Allocate_Block\<close>: it supplies
  both the array of \<open>std::make_unique\<close> and the slot of \<open>blocks_.emplace_back\<close>, or
  the first throws \<open>std::bad_alloc\<close>, or the first succeeds and the second throws
  \<open>std::bad_alloc\<close>.
\<close>

datatype host = Storage_ok | Array_fails | Vector_fails

text \<open>
  \<open>Allocate_Block\<close>: the exception it throws, if any, and the pool as it leaves it. The
  new array is array number \<open>blocks_.size()\<close>. Either \<open>std::bad_alloc\<close> is caught and a
  \<open>std::runtime_error\<close> thrown instead. When \<open>make_unique\<close> fails nothing has been
  assigned. When \<open>emplace_back\<close> fails, the links and \<open>free_list_\<close> have been written
  and the array is released with \<open>new_block\<close>: \<open>blocks_\<close> is as before and
  \<open>free_list_\<close> dangles into an array the pool does not hold. The constructor admits no
  pool with \<open>block_count_ == 0\<close>, so \<open>block_count_ - 1\<close> does not wrap.
\<close>

definition Allocate_Block :: "host \<Rightarrow> Memory_Pool \<Rightarrow> error option \<times> Memory_Pool" where
  "Allocate_Block h p =
     (if h = Array_fails then (Some Pool_failure, p)
      else
        (let k = blocks p;
             nx = fold (\<lambda>i nx. nx((k, i) := Some (k, i + 1))) [0..<block_count p - 1] (next_of p);
             nx = nx((k, block_count p - 1) := free_list p);
             p' = p\<lparr>free_list := Some (k, 0), next_of := nx\<rparr>
         in if h = Vector_fails then (Some Pool_failure, p')
            else (None, p'\<lparr>blocks := Suc k\<rparr>)))"

text \<open>
  \<open>Memory_Pool::Allocate\<close> and \<open>Memory_Pool::Deallocate\<close>: the result (an exception or
  the returned pointer) and the pool as the call leaves it.
\<close>

definition Pool_Allocate :: "host \<Rightarrow> Memory_Pool \<Rightarrow> (error + block_ptr) \<times> Memory_Pool" where
  "Pool_Allocate h p =
     (case (if free_list p = None then Allocate_Block h p else (None, p)) of
        (Some e, p') \<Rightarrow> (Inl e, p')
      | (None, p') \<Rightarrow>
          (case free_list p' of
             None \<Rightarrow> (Inl Null_dereference, p')
           | Some block \<Rightarrow> (Inr (Some block), p'\<lparr>free_list := next_of p' block\<rparr>)))"

definition Pool_Deallocate :: "block_ptr \<Rightarrow> Memory_Pool \<Rightarrow> error option \<times> Memory_Pool" where
  "Pool_Deallocate ptr p =
     (case ptr of
        None \<Rightarrow> (Some Invalid_argument, p)
      | Some block \<Rightarrow>
          (None, p\<lparr>next_of := (next_of p)(block := free_list p), free_list := Some block\<rparr>))"

text \<open>
  \<open>BSTree_Allocator\<close> holds a \<open>std::shared_ptr\<close> to its pool, and a copy of a handle
  shares that pool. Its methods are therefore functions on the pool the handle refers to:
  every handle of the pool sees their effect. \<open>Deallocate\<close> is \<open>noexcept\<close>, so the
  exception of \<open>Memory_Pool::Deallocate\<close> on a null pointer ends the program.
\<close>

definition Allocate :: "size_t \<Rightarrow> host \<Rightarrow> Memory_Pool \<Rightarrow> (error + block_ptr) \<times> Memory_Pool" where
  "Allocate n h pool =
     (if n \<noteq> 1 then (Inl Bad_alloc, pool)
      else Pool_Allocate h pool)"

definition Deallocate :: "block_ptr \<Rightarrow> size_t \<Rightarrow> Memory_Pool \<Rightarrow> error option \<times> Memory_Pool" where
  "Deallocate ptr n pool =
     (if n = 1 then
        (case Pool_Deallocate ptr pool of
           (Some e, pool') \<Rightarrow> (Some Terminate, pool')
         | (None, pool') \<Rightarrow> (None, pool'))
      else (None, pool))"

text \<open>
  Two pools of block count 2 used as examples: a fresh one, and the same pool after its
  first allocation (one array, slot 0 handed out, slot 1 on the free list).
\<close>

definition pool0 :: Memory_Pool where
  "pool0 = \<lparr>free_list = None, next_of = (\<lambda>s. None), blocks = 0, block_size = 32, block_count = 2\<rparr>"

definition pool1 :: Memory_Pool where
  "pool1 = \<lparr>free_list = Some (0, 1), next_of = (\<lambda>s. None)((0, 0) := Some (0, 1)), blocks = 1,
            block_size = 32, block_count = 2\<rparr>"

section \<open>Properties of the traversal iterator\<close>

lemma visit_Push_left: "visit (Push_left n st) = Inorder n @ visit st"
  by (induction n arbitrary: st) auto

lemma nullptr_notin_Push_left:
  "nullptr \<notin> set st \<Longrightarrow> nullptr \<notin> set (Push_left n st)"
  by (induction n arbitrary: st) auto

lemma collect_positioned:
  "nullptr \<notin> set (Node_Stack it) \<Longrightarrow> current it \<noteq> nullptr \<Longrightarrow>
   collect it = visit (current it # Node_Stack it)"
proof (induction it rule: collect.induct)
  case (1 it)
  then obtain d l r c where cur: "current it = Node d l r c"
    by (cases "current it") auto
  define st where "st = Push_left r (Node_Stack it)"
  have st_alt: "(if r \<noteq> nullptr then Push_left r (Node_Stack it) else Node_Stack it) = st"
    by (cases r) (simp_all add: st_def)
  have no_null: "nullptr \<notin> set st"
    using "1.prems"(1) by (simp add: st_def nullptr_notin_Push_left)
  have visit_st: "visit st = Inorder r @ visit (Node_Stack it)"
    by (simp add: st_def visit_Push_left)
  have not_end: "\<not> exhausted it"
    using cur by (simp add: exhausted_def)
  have der: "deref it = Inr d"
    using cur by (simp add: deref_def)
  show ?case
  proof (cases st)
    case Nil
    then have inc: "increment it = Inr \<lparr>Node_Stack = [], current = nullptr\<rparr>"
      using cur st_alt by (simp add: increment_def)
    have "collect \<lparr>Node_Stack = [], current = nullptr\<rparr> = ([]::'a list)"
      by (subst collect.simps) (simp add: exhausted_def)
    then have "collect it = [d]"
      using not_end der inc by (subst collect.simps) simp
    moreover have "visit st = []" using Nil by simp
    ultimately show ?thesis using cur visit_st by simp
  next
    case (Cons n rest)
    let ?it' = "\<lparr>Node_Stack = rest, current = n\<rparr>"
    have inc: "increment it = Inr ?it'"
      using cur st_alt Cons by (simp add: increment_def)
    have "n \<noteq> nullptr" "nullptr \<notin> set rest"
      using no_null Cons by auto
    then have "collect ?it' = visit (n # rest)"
      using "1.IH"[OF not_end der inc] by simp
    then have "collect it = d # visit st"
      using not_end der inc Cons by (subst collect.simps) simp
    then show ?thesis using cur visit_st by simp
  qed
qed

lemma collect_Tree_Iterator_new: "collect (Tree_Iterator_new n) = Inorder n"
proof (cases "Push_left n []")
  case Nil
  then have "Tree_Iterator_new n = \<lparr>Node_Stack = [], current = nullptr\<rparr>"
    by (simp add: Tree_Iterator_new_def)
  then have "collect (Tree_Iterator_new n) = []"
    by (subst collect.simps) (simp add: exhausted_def)
  moreover have "Inorder n = []"
    using visit_Push_left[of n "[]"] Nil by simp
  ultimately show ?thesis by simp
next
  case (Cons m rest)
  then have new: "Tree_Iterator_new n = \<lparr>Node_Stack = rest, current = m\<rparr>"
    by (simp add: Tree_Iterator_new_def)
  have "nullptr \<notin> set (Push_left n [])"
    by (rule nullptr_notin_Push_left) simp
  then have "m \<noteq> nullptr" "nullptr \<notin> set rest"
    using Cons by auto
  then have "collect (Tree_Iterator_new n) = visit (m # rest)"
    using collect_positioned[of "\<lparr>Node_Stack = rest, current = m\<rparr>"] new by simp
  also have "\<dots> = Inorder n"
    using visit_Push_left[of n "[]"] Cons by simp
  finally show ?thesis .
qed

lemma set_Inorder_Insert_node:
  "set (Inorder (Insert_node n v)) = insert v (set (Inorder n))"
  by (induction n) (auto simp: new_Node_def)

lemma sorted_Inorder_Insert_node:
  "sorted_wrt (<) (Inorder n) \<Longrightarrow> sorted_wrt (<) (Inorder (Insert_node n v))"
  by (induction n) (auto simp: new_Node_def sorted_wrt_append set_Inorder_Insert_node)

lemma fold_Insert_Inorder:
  "sorted_wrt (<) (Inorder (root t)) \<Longrightarrow>
   sorted_wrt (<) (Inorder (root (fold (\<lambda>v t. Insert t v) vs t))) \<and>
   set (Inorder (root (fold (\<lambda>v t. Insert t v) vs t))) = set (Inorder (root t)) \<union> set vs"
  by (induction vs arbitrary: t)
     (auto simp: Insert_def sorted_Inorder_Insert_node set_Inorder_Insert_node)

lemma Inorder_fold_Insert:
  "Inorder (root (fold (\<lambda>v t. Insert t v) vs BSTree_new)) = sorted_list_of_set (set vs)"
proof -
  let ?xs = "Inorder (root (fold (\<lambda>v t. Insert t v) vs BSTree_new))"
  have "sorted_wrt (<) ?xs \<and> set ?xs = set vs"
    using fold_Insert_Inorder[of BSTree_new vs] by (simp add: BSTree_new_def)
  then have "sorted ?xs" "distinct ?xs" "set ?xs = set vs"
    by (simp_all add: strict_sorted_iff)
  then show ?thesis
    by (metis sorted_list_of_set.idem_if_sorted_distinct)
qed

lemma collect_BSTree_begin: "collect (BSTree_begin u) = Inorder (root u)"
  by (simp add: BSTree_begin_def collect_Tree_Iterator_new)

text \<open>
  C8. Iterating from \<open>begin()\<close> until exhaustion yields the in-order sequence of the
  tree, one entry per node whatever its duplicate count; for the tree built from an empty
  one by inserting any values \<open>vs\<close>, in any order and with any repetitions, that is the
  distinct values of \<open>vs\<close> in strictly ascending order.
\<close>

theorem iterator_in_order:
  "collect (BSTree_begin t) = Inorder (root t) \<and>
   collect (BSTree_begin (fold (\<lambda>v t. Insert t v) vs BSTree_new)) = sorted_list_of_set (set vs) \<and>
   sorted_wrt (<) (collect (BSTree_begin (fold (\<lambda>v t. Insert t v) vs BSTree_new))) \<and>
   set (collect (BSTree_begin (fold (\<lambda>v t. Insert t v) vs BSTree_new))) = set vs"
proof -
  have "sorted_wrt (<) (sorted_list_of_set (set vs))"
    by (simp add: strict_sorted_iff)
  then show ?thesis
    by (simp add: collect_BSTree_begin Inorder_fold_Insert)
qed

text \<open>
  C5, what the code does. \<open>operator++\<close> tests \<open>current_ == nullptr\<close> and throws the
  out-of-range error, so advancing an exhausted iterator neither wraps around nor returns
  a value. \<open>operator*\<close> has no such test: on an exhausted iterator, such as \<open>end()\<close>
  of any tree, it reads through the null pointer and no out-of-bounds condition is raised.
\<close>

theorem exhausted_deref_unchecked:
  "exhausted (BSTree_end t) \<and>
   increment (BSTree_end t) = Inl Out_of_range \<and>
   deref (BSTree_end t) = Inl Null_dereference \<and>
   deref (BSTree_end t) \<noteq> Inl Out_of_range \<and>
   increment \<lparr>Node_Stack = st, current = nullptr\<rparr> = Inl Out_of_range \<and>
   deref \<lparr>Node_Stack = st, current = nullptr\<rparr> \<noteq> Inl Out_of_range"
  by (simp add: exhausted_def increment_def deref_def BSTree_end_def Tree_Iterator_new_def)

section \<open>Properties of the error-handling version\<close>

text \<open>The depth argument of every call is 0, so the recursion of version 2 computes what
  the recursion of version 1 does.\<close>

lemma Insert_node2_depth0: "Insert_node2 n v 0 = Inr (Insert_node n v)"
  by (induction n) (simp_all add: MAX_DEPTH_def)

text \<open>Inserting \<open>1, 2, ..., n\<close> in this order builds the chain of these values, and
  the next value descends through all of it.\<close>

lemma Insert_node_chain: "Insert_node (chain a n) (a + int n) = chain a (Suc n)"
proof (induction n arbitrary: a)
  case 0
  show ?case by (simp add: new_Node_def)
next
  case (Suc n)
  have e: "a + int (Suc n) = (a + 1) + int n" by simp
  have "Insert_node (chain a (Suc n)) ((a + 1) + int n) =
        Node a nullptr (Insert_node (chain (a + 1) n) ((a + 1) + int n)) 0"
    by simp
  also have "\<dots> = Node a nullptr (chain (a + 1) (Suc n)) 0"
    by (simp only: Suc.IH)
  also have "\<dots> = chain a (Suc (Suc n))"
    by simp
  finally show ?case by (simp only: e)
qed

lemma descent_chain: "descent (chain a n) (a + int n) = n"
proof (induction n arbitrary: a)
  case 0
  show ?case by simp
next
  case (Suc n)
  have e: "a + int (Suc n) = (a + 1) + int n" by simp
  have "descent (chain a (Suc n)) ((a + 1) + int n) =
        Suc (descent (chain (a + 1) n) ((a + 1) + int n))"
    by simp
  also have "\<dots> = Suc n"
    by (simp only: Suc.IH)
  finally show ?case by (simp only: e)
qed

lemma Insert2_not_sentinel: "v \<noteq> default \<Longrightarrow> Insert2 t v = (None, Insert t v)"
  by (simp add: Insert2_def Insert_node2_depth0 Insert_def)

lemma fold_Insert2_chain:
  "root (fold (\<lambda>v t. snd (Insert2 t v)) (map int [1..<Suc n]) BSTree_new) = chain 1 n"
proof (induction n)
  case 0
  then show ?case by (simp add: BSTree_new_def)
next
  case (Suc n)
  have "int (Suc n) \<noteq> default" by (simp add: default_int_def)
  then have "Insert2 t (int (Suc n)) = (None, Insert t (int (Suc n)))" for t
    by (rule Insert2_not_sentinel)
  moreover have "Insert_node (chain 1 n) (int (Suc n)) = chain 1 (Suc n)"
    using Insert_node_chain[of 1 n] by (simp add: add.commute)
  ultimately show ?case
    using Suc by (simp add: Insert_def del: chain.simps)
qed

text \<open>
  C4, what the code does. The depth guard compares an argument that is 0 in every call, so
  \<open>Insert\<close> never throws the excessive-recursion error: after inserting 1 to 1001 in
  increasing order, the insertion of 1002 descends 1001 levels, which is more than
  \<open>MAX_DEPTH\<close>, and returns normally.
\<close>

theorem depth_guard_never_fires:
  "fst (Insert2 t v) \<noteq> Some Excessive_recursion \<and>
   descent (root (fold (\<lambda>v t. snd (Insert2 t v)) (map int [1..<1002]) BSTree_new)) 1002 = 1001 \<and>
   fst (Insert2 (fold (\<lambda>v t. snd (Insert2 t v)) (map int [1..<1002]) BSTree_new) 1002) = None"
proof -
  let ?T = "fold (\<lambda>v t. snd (Insert2 t v)) (map int [1..<1002]) BSTree_new"
  have a: "fst (Insert2 t v) \<noteq> Some Excessive_recursion"
    by (simp add: Insert2_def Insert_node2_depth0)
  have s: "Suc 1001 = 1002" by simp
  have r: "root ?T = chain 1 1001"
    using fold_Insert2_chain[of 1001] by (simp only: s)
  have "descent (chain 1 1001) (1 + int 1001) = 1001"
    by (rule descent_chain)
  then have b: "descent (root ?T) 1002 = 1001"
    by (simp only: r) simp
  have "(1002::int) \<noteq> default" by (simp add: default_int_def)
  then have "Insert2 ?T 1002 = (None, Insert ?T 1002)"
    by (rule Insert2_not_sentinel)
  then have c: "fst (Insert2 ?T 1002) = None"
    by (simp only: fst_conv)
  show ?thesis using a b c by (intro conjI)
qed

text \<open>
  C6. \<open>Remove\<close> of version 2 on a value that \<open>Search\<close> does not find throws the
  not-found error and leaves the tree (root, structure and both counters) as it was.
\<close>

theorem Remove2_absent:
  assumes "\<not> Search t v"
  shows "Remove2 t v = (Some Not_found, t)"
  using assms by (simp add: Remove2_def)

theorem Remove2_absent_witness:
  "\<not> Search (Insert BSTree_new (5::int)) 7 \<and>
   Remove2 (Insert BSTree_new (5::int)) 7 = (Some Not_found, Insert BSTree_new 5)"
proof -
  have h: "\<not> Search (Insert BSTree_new (5::int)) 7"
    by (simp add: Search_def Insert_def BSTree_new_def new_Node_def)
  show ?thesis using h Remove2_absent[OF h] by simp
qed

text \<open>
  C7. \<open>Insert\<close> of version 2 on the sentinel \<open>T()\<close> throws the invalid-argument error
  and leaves the tree as it was; on any other value it does not throw that error (it
  throws nothing, and inserts as version 1 does).
\<close>

theorem Insert2_sentinel:
  "Insert2 t default = (Some Invalid_argument, t) \<and>
   (v \<noteq> default \<longrightarrow>
      fst (Insert2 t v) \<noteq> Some Invalid_argument \<and> Insert2 t v = (None, Insert t v))"
  by (simp add: Insert2_def Insert_node2_depth0 Insert_def)

theorem Insert2_sentinel_witness:
  "Insert2 (Insert BSTree_new 5) (0::int) = (Some Invalid_argument, Insert BSTree_new 5) \<and>
   (3::int) \<noteq> default \<and>
   fst (Insert2 (Insert BSTree_new 5) (3::int)) \<noteq> Some Invalid_argument \<and>
   Insert2 (Insert BSTree_new 5) (3::int) = (None, Insert (Insert BSTree_new 5) 3)"
  using Insert2_sentinel[of "Insert BSTree_new (5::int)" 3]
  by (simp add: default_int_def)

section \<open>Removal\<close>

text \<open>
  C1, what the code does. The retaining branch of \<open>Remove\<close> is taken for
  \<open>count_ > 1\<close> only. A value inserted twice has \<open>count_\<close> 1, and a single
  \<open>Remove\<close> deletes its node: \<open>Search\<close> no longer finds it. After three insertions
  two removals are enough. In the tree built from 5, 3, 8, 3, 1 one removal of 3 changes
  the in-order sequence to 1, 5, 8.
\<close>

theorem Remove_drops_last_duplicate:
  "count (root (Insert (Insert BSTree_new v) v)) = 1 \<and>
   Search (Insert (Insert BSTree_new v) v) v \<and>
   root (Remove (Insert (Insert BSTree_new v) v) v) = nullptr \<and>
   \<not> Search (Remove (Insert (Insert BSTree_new v) v) v) v \<and>
   \<not> Search (Remove (Remove (Insert (Insert (Insert BSTree_new v) v) v) v) v) v \<and>
   Inorder (root (fold (\<lambda>v t. Insert t v) [5, 3, 8, 3, 1 :: int] BSTree_new)) = [1, 3, 5, 8] \<and>
   Inorder (root (Remove (fold (\<lambda>v t. Insert t v) [5, 3, 8, 3, 1 :: int] BSTree_new) 3)) = [1, 5, 8]"
  by (simp add: Search_def Remove_def Insert_def BSTree_new_def new_Node_def)

text \<open>
  The same for any number of insertions: after \<open>k\<close> insertions of one value into an
  empty tree, \<open>k - 1\<close> removals already delete its node.
\<close>

lemma root_funpow_Insert:
  "root (((\<lambda>t. Insert t v) ^^ Suc k) BSTree_new) = Node v nullptr nullptr (of_nat k)"
  by (induction k) (simp_all add: Insert_def BSTree_new_def new_Node_def)

lemma one_less_of_nat:
  "1 < n \<Longrightarrow> n < 2 ^ 64 \<Longrightarrow> (1 :: size_t) < of_nat n"
  by (simp add: word_less_nat_alt unat_of_nat)

lemma root_funpow_Remove:
  "0 < n \<Longrightarrow> n < 2 ^ 64 \<Longrightarrow> root t = Node v nullptr nullptr (of_nat n) \<Longrightarrow>
   root (((\<lambda>t. Remove t v) ^^ n) t) = nullptr"
proof (induction n arbitrary: t)
  case 0
  then show ?case by simp
next
  case (Suc n)
  show ?case
  proof (cases "n = 0")
    case True
    then show ?thesis using Suc.prems by (simp add: Remove_def)
  next
    case False
    then have "(1 :: size_t) < of_nat (Suc n)"
      using Suc.prems by (intro one_less_of_nat) auto
    then have "root (Remove t v) = Node v nullptr nullptr (of_nat n)"
      using Suc.prems by (simp add: Remove_def)
    then have "root (((\<lambda>t. Remove t v) ^^ n) (Remove t v)) = nullptr"
      using Suc.IH[of "Remove t v"] False Suc.prems by simp
    then show ?thesis by (simp only: funpow_Suc_right o_apply)
  qed
qed

lemma Remove_one_short_of_insertions:
  assumes "2 \<le> k" "k < 2 ^ 64"
  shows "\<not> Search (((\<lambda>t. Remove t v) ^^ (k - 1)) (((\<lambda>t. Insert t v) ^^ k) BSTree_new)) v"
proof -
  obtain j where j: "k = Suc j" "0 < j" "j < 2 ^ 64"
    using assms by (cases k) auto
  have "root (((\<lambda>t. Remove t v) ^^ j) (((\<lambda>t. Insert t v) ^^ Suc j) BSTree_new)) = nullptr"
    using j by (intro root_funpow_Remove root_funpow_Insert)
  then show ?thesis using j by (simp add: Search_def)
qed

text \<open>A matched node with two children and no \<open>count_\<close> above 1 is replaced by
  \<open>nullptr\<close>: \<open>temp\<close> keeps its initial value.\<close>

lemma Remove_node_two_children:
  "l \<noteq> nullptr \<Longrightarrow> r \<noteq> nullptr \<Longrightarrow> \<not> c > 1 \<Longrightarrow>
   Remove_node (Node d l r c) d tot = (nullptr, tot - 1)"
  by simp

text \<open>
  C2, what the code does. The recursive \<open>Remove\<close> (the same text in versions 1, 2 and
  3) returns \<open>temp\<close> before the successor code, so removing a node with two children
  discards the node with both subtrees. After inserting 5, 2, 8, 6, 9, removing 5 leaves
  an empty tree, not the sequence 2, 6, 8, 9.
\<close>

theorem Remove_two_children_drops_subtree:
  "Inorder (root (fold (\<lambda>v t. Insert t v) [5, 2, 8, 6, 9 :: int] BSTree_new)) = [2, 5, 6, 8, 9] \<and>
   root (Remove (fold (\<lambda>v t. Insert t v) [5, 2, 8, 6, 9 :: int] BSTree_new) 5) = nullptr \<and>
   Inorder (root (Remove (fold (\<lambda>v t. Insert t v) [5, 2, 8, 6, 9 :: int] BSTree_new) 5)) = [] \<and>
   Inorder (root (Remove (fold (\<lambda>v t. Insert t v) [5, 2, 8, 6, 9 :: int] BSTree_new) 5)) \<noteq> [2, 6, 8, 9]"
  by (simp add: Search_def Remove_def Insert_def BSTree_new_def new_Node_def)

section \<open>The counters of the tree\<close>

text \<open>
  C3, what the code does. No version of \<open>Insert\<close> assigns \<open>total_elements_count_\<close>:
  it is still 0 after an insertion into an empty tree, and the removal of that value
  wraps it around to \<open>2^64 - 1\<close>.
\<close>

theorem Insert_never_counts:
  "total_elements_count (Insert t v) = total_elements_count t \<and>
   total_elements_count (snd (Insert2 t2 v2)) = total_elements_count t2 \<and>
   total_elements_count (Insert BSTree_new (5::int)) = 0 \<and>
   total_elements_count (Remove (Insert BSTree_new (5::int)) 5) = 18446744073709551615"
  by (simp add: Insert2_def Search_def Remove_def Insert_def BSTree_new_def new_Node_def split: sum.splits)

text \<open>\<open>Copy\<close> mirrors structure, values and duplicate counts.\<close>

lemma Copy_id: "Copy n = n"
  by (induction n) (simp_all add: new_Node_def)

lemma duplicate_elements_count_Remove:
  "duplicate_elements_count (Remove t v) = duplicate_elements_count t"
  by (simp add: Remove_def split: prod.splits)

lemma duplicate_elements_count_apply_op:
  "duplicate_elements_count (apply_op t x) = duplicate_elements_count t"
  by (cases x) (simp_all add: Insert_def duplicate_elements_count_Remove)

lemma duplicate_elements_count_apply_op2:
  "duplicate_elements_count (apply_op2 t x) = duplicate_elements_count t"
  by (cases x) (simp_all add: Insert2_def Remove2_def duplicate_elements_count_Remove split: sum.splits)

lemma duplicate_elements_count_foldl:
  "duplicate_elements_count (foldl apply_op t ops) = duplicate_elements_count t"
  by (induction ops arbitrary: t) (simp_all add: duplicate_elements_count_apply_op)

lemma duplicate_elements_count_foldl2:
  "duplicate_elements_count (foldl apply_op2 t ops) = duplicate_elements_count t"
  by (induction ops arbitrary: t) (simp_all add: duplicate_elements_count_apply_op2)

text \<open>
  C10. \<open>duplicate_elements_count_\<close> is 0 in a default-constructed tree, is copied by the
  copy and move constructors, and is left as it is by \<open>Insert\<close>, \<open>Search\<close> and
  \<open>Remove\<close> of both versions; so it is 0 after any sequence of operations on a
  default-constructed tree.
\<close>

theorem duplicate_elements_count_never_updated:
  "duplicate_elements_count (BSTree_new :: 'a BSTree) = 0 \<and>
   duplicate_elements_count (BSTree_copy t) = duplicate_elements_count t \<and>
   duplicate_elements_count (fst (BSTree_move t)) = duplicate_elements_count t \<and>
   duplicate_elements_count (Insert t v) = duplicate_elements_count t \<and>
   duplicate_elements_count (Remove t v) = duplicate_elements_count t \<and>
   duplicate_elements_count (snd (Insert2 t2 v2)) = duplicate_elements_count t2 \<and>
   duplicate_elements_count (snd (Remove2 t v)) = duplicate_elements_count t \<and>
   duplicate_elements_count (foldl apply_op BSTree_new ops) = 0 \<and>
   duplicate_elements_count (foldl apply_op2 BSTree_new ops2) = 0"
proof -
  have "duplicate_elements_count (snd (Insert2 t2 v2)) = duplicate_elements_count t2"
    using duplicate_elements_count_apply_op2[of t2 "Op_Insert v2"] by simp
  moreover have "duplicate_elements_count (snd (Remove2 t v)) = duplicate_elements_count t"
    by (simp add: Remove2_def duplicate_elements_count_Remove)
  ultimately show ?thesis
    by (simp add: BSTree_new_def BSTree_copy_def BSTree_move_def Insert_def
        duplicate_elements_count_Remove duplicate_elements_count_foldl
        duplicate_elements_count_foldl2)
qed

section \<open>Properties of the pooled allocator\<close>





text \<open>
  The two failures of the host on an empty free list: without the array the pool is
  untouched; without the vector slot the free list is left pointing at slot 0 of an array
  that \<open>blocks_\<close> does not hold.
\<close>

lemma Pool_Allocate_exhausted:
  "free_list q = None \<Longrightarrow> Pool_Allocate Array_fails q = (Inl Pool_failure, q)"
  by (simp add: Pool_Allocate_def Allocate_Block_def)

lemma Pool_Allocate_vector_fails:
  assumes "free_list q = None"
  shows "fst (Pool_Allocate Vector_fails q) = Inl Pool_failure"
    and "free_list (snd (Pool_Allocate Vector_fails q)) = Some (blocks q, 0)"
    and "blocks (snd (Pool_Allocate Vector_fails q)) = blocks q"
  using assms by (simp_all add: Pool_Allocate_def Allocate_Block_def Let_def)

text \<open>\<open>Deallocate\<close> of a null pointer with \<open>n == 1\<close> ends the program.\<close>

lemma Deallocate_null: "Deallocate None 1 p = (Some Terminate, p)"
  by (simp add: Deallocate_def Pool_Deallocate_def)


lemma pool1_eq: "snd (Allocate 1 Storage_ok pool0) = pool1"
  by (simp add: pool1_def pool0_def Allocate_def Pool_Allocate_def Allocate_Block_def Let_def)



end
